theory Spec2Isabelle
  imports Complex_Main "HOL-Library.Multiset" "HOL-Library.Extended_Nat"
begin

section \<open>Vectors and norms\<close>

text \<open>
  A JAX array of rank one is a list of numbers.  Numbers are modelled as \<^typ>\<open>real\<close>:
  arithmetic is exact, so the rounding, the overflow and the special values of the
  float32 arithmetic of the source are outside the model.  The source supports complex
  data through \<open>jnp.conj\<close> and \<open>jnp.real\<close>; on real data both are the identity and are
  left out.  Elementwise operations on two arrays assume equal shapes, as the operator
  contract says.
\<close>

type_synonym vec = "real list"

definition vsub :: "vec \<Rightarrow> vec \<Rightarrow> vec" where
  "vsub x y = map2 (-) x y"

definition vadd :: "vec \<Rightarrow> vec \<Rightarrow> vec" where
  "vadd x y = map2 (+) x y"

definition smul :: "real \<Rightarrow> vec \<Rightarrow> vec" where
  "smul a x = map ((*) a) x"

definition vneg :: "vec \<Rightarrow> vec" where
  "vneg x = map uminus x"

definition dot :: "vec \<Rightarrow> vec \<Rightarrow> real" where
  "dot x y = sum_list (map2 (*) x y)"

text \<open>\<open>jax.numpy.linalg.norm\<close> of a vector: the Euclidean norm.\<close>

definition norm2 :: "vec \<Rightarrow> real" where
  "norm2 x = sqrt (dot x x)"

text \<open>\<open>crn.norm_l1\<close>, \<open>crn.arr_l1norm\<close> and \<open>crn.norm_linf\<close> of the array library.\<close>

definition norm_l1 :: "vec \<Rightarrow> real" where
  "norm_l1 x = sum_list (map abs x)"

definition arr_l1norm :: "vec \<Rightarrow> real" where
  "arr_l1norm x = sum_list (map abs x)"

definition norm_linf :: "vec \<Rightarrow> real" where
  "norm_linf x = fold max (map abs x) 0"

definition primal_norm :: "vec \<Rightarrow> real" where
  "primal_norm = norm_l1"

definition dual_norm :: "vec \<Rightarrow> real" where
  "dual_norm = norm_linf"

definition obj_val :: "vec \<Rightarrow> real" where
  "obj_val r = 0.5 * dot r r"

text \<open>\<open>jnp.clip(a, lo, hi)\<close> is \<open>minimum(maximum(a, lo), hi)\<close>.\<close>

definition clip :: "real \<Rightarrow> real \<Rightarrow> real \<Rightarrow> real" where
  "clip a lo hi = min (max a lo) hi"

text \<open>
  One quotient of the source has a divisor that can be zero with nothing to guard it: the
  update of \<open>tau\<close> divides by the dual norm of the gradient.  There the model follows
  IEEE arithmetic: the value of \<open>jnp.maximum(0, tau + a / d)\<close> is a finite number, an
  infinity or not a number.  The divisor \<open>d\<close> is a norm, so a zero divisor is \<open>+0\<close>
  and the sign of \<open>a / 0\<close> is the sign of \<open>a\<close>; \<open>0 / 0\<close> is not a number, and
  \<open>jnp.maximum\<close> hands a NaN on.
\<close>

datatype float_val = Fin real | PInf | NInf | NaN

definition fdiv :: "real \<Rightarrow> real \<Rightarrow> float_val" where
  "fdiv a d = (if d \<noteq> 0 then Fin (a / d)
               else if 0 < a then PInf
               else if a < 0 then NInf
               else NaN)"

definition fadd :: "real \<Rightarrow> float_val \<Rightarrow> float_val" where
  "fadd t v = (case v of Fin q \<Rightarrow> Fin (t + q) | PInf \<Rightarrow> PInf | NInf \<Rightarrow> NInf | NaN \<Rightarrow> NaN)"

definition fmaximum0 :: "float_val \<Rightarrow> float_val" where
  "fmaximum0 v = (case v of Fin q \<Rightarrow> Fin (max 0 q) | PInf \<Rightarrow> PInf | NInf \<Rightarrow> Fin 0 | NaN \<Rightarrow> NaN)"


section \<open>Projection onto the l1 ball\<close>

text \<open>\<open>jnp.cumsum\<close>: running sums, left to right.\<close>

fun cumsum_from :: "real \<Rightarrow> vec \<Rightarrow> vec" where
  "cumsum_from acc [] = []"
| "cumsum_from acc (v # vs) = (acc + v) # cumsum_from (acc + v) vs"

definition cumsum :: "vec \<Rightarrow> vec" where
  "cumsum u = cumsum_from 0 u"

text \<open>
  \<open>jnp.argmax\<close> of a boolean array: the index of the first \<open>True\<close>, and \<open>0\<close> when
  there is none (every entry is then a first maximum).
\<close>

definition argmax :: "bool list \<Rightarrow> nat" where
  "argmax flags = (if True \<in> set flags then length (takeWhile Not flags) else 0)"

text \<open>The shrinkage of one entry: \<open>maximum(0, x - kappa) + minimum(0, x + kappa)\<close>.\<close>

definition shrink :: "real \<Rightarrow> real \<Rightarrow> real" where
  "shrink kappa t = max 0 (t - kappa) + min 0 (t + kappa)"

text \<open>
  \<open>_project_to_l1_ball\<close> of the source (an Isabelle name cannot start with an
  underscore).  It is only called on a vector whose l1 norm exceeds \<open>q\<close>.
\<close>

definition project_to_l1_ball_sorted :: "vec \<Rightarrow> real \<Rightarrow> vec" where
  "project_to_l1_ball_sorted x q =
    (let u = rev (sort (map abs x));
         cu = cumsum u;
         cu_diff = map (\<lambda>c. c - q) cu;
         u_scaled = map2 (*) u (map real [1..<1 + length u]);
         flags = map2 (\<lambda>c s. c > s) cu_diff u_scaled;
         K = argmax flags;
         K = (if K = 0 then length flags else K);
         kappa = (cu ! (K - 1) - q) / real K
     in map (shrink kappa) x)"

definition project_to_l1_ball :: "vec \<Rightarrow> real \<Rightarrow> vec" where
  "project_to_l1_ball x q =
    (let invalid = arr_l1norm x > q
     in if invalid then project_to_l1_ball_sorted x q else x)"

definition project_to_l1_ball_at :: "vec \<Rightarrow> vec \<Rightarrow> real \<Rightarrow> vec" where
  "project_to_l1_ball_at x b q =
    (let r = vsub x b;
         r = project_to_l1_ball r q
     in vadd r b)"


text \<open>
  The flags of the breakpoint scan and the threshold \<open>kappa\<close> that
  \<open>_project_to_l1_ball\<close> computes from them, named so that statements can refer to them.
\<close>

definition scan_flags :: "vec \<Rightarrow> real \<Rightarrow> bool list" where
  "scan_flags u q = map2 (\<lambda>c s. c > s) (map (\<lambda>c. c - q) (cumsum u))
                         (map2 (*) u (map real [1..<1 + length u]))"

definition threshold :: "vec \<Rightarrow> real \<Rightarrow> real" where
  "threshold x q =
    (let u = rev (sort (map abs x));
         K0 = argmax (scan_flags u q);
         K = (if K0 = 0 then length (scan_flags u q) else K0)
     in (cumsum u ! (K - 1) - q) / real K)"


section \<open>Curvilinear line search\<close>

text \<open>
  The linear operator is known through \<open>A.times\<close>, \<open>A.trans\<close> and \<open>A.shape\<close> only.
  Selectors of a record are constants of the theory, so every field carries a prefix of
  its record: \<open>op_\<close> for the operator, \<open>o_\<close> for \<open>SPGL1Options\<close>, \<open>ls_\<close> for
  \<open>CurvyLineSearchState\<close> and \<open>st_\<close> for the two solver states.
\<close>

record linop =
  op_times :: "vec \<Rightarrow> vec"
  op_trans :: "vec \<Rightarrow> vec"
  op_shape :: "nat \<times> nat"

record SPGL1Options =
  o_bp_tol :: real
  o_ls_tol :: real
  o_opt_tol :: real
  o_dec_tol :: real
  o_gamma :: real
  o_alpha_min :: real
  o_alpha_max :: real
  o_memory :: nat
  o_max_matvec :: enat
  o_max_iters :: int

definition default_options :: SPGL1Options where
  "default_options =
    \<lparr>o_bp_tol = 1 / 10 ^ 6, o_ls_tol = 1 / 10 ^ 6, o_opt_tol = 1 / 10 ^ 4,
     o_dec_tol = 1 / 10 ^ 4, o_gamma = 1 / 10 ^ 4,
     o_alpha_min = 1 / 10 ^ 16, o_alpha_max = 10 ^ 5,
     o_memory = 10, o_max_matvec = \<infinity>, o_max_iters = 100\<rparr>"

record CurvyLineSearchState =
  ls_alpha :: real
  ls_scale :: real
  ls_x_new :: vec
  ls_r_new :: vec
  ls_d_new :: vec
  ls_gtd :: real
  ls_d_norm_old :: real
  ls_f_val :: real
  ls_f_lim :: real
  ls_n_iters :: int
  ls_n_safe :: int

text \<open>
  The closures \<open>candidate\<close>, \<open>init\<close>, \<open>next_func\<close> and \<open>cond_func\<close> of
  \<open>curvy_line_search\<close> take the variables they capture as parameters.
\<close>

definition candidate ::
  "linop \<Rightarrow> vec \<Rightarrow> vec \<Rightarrow> vec \<Rightarrow> real \<Rightarrow> (vec \<Rightarrow> real \<Rightarrow> vec) \<Rightarrow> real \<Rightarrow> real
     \<Rightarrow> real \<Rightarrow> real \<Rightarrow> vec \<times> vec \<times> vec \<times> real \<times> real \<times> real" where
  "candidate A b x g f_max proj tau gamma alpha scale =
    (let x_new = proj (vsub x (smul (alpha * scale) g)) tau;
         r_new = vsub b (op_times A x_new);
         d_new = vsub x_new x;
         gtd = scale * dot g d_new;
         f_val = obj_val r_new;
         f_lim = f_max + gamma * alpha * gtd
     in (x_new, r_new, d_new, gtd, f_val, f_lim))"

definition ls_init ::
  "linop \<Rightarrow> vec \<Rightarrow> vec \<Rightarrow> vec \<Rightarrow> real \<Rightarrow> real \<Rightarrow> (vec \<Rightarrow> real \<Rightarrow> vec) \<Rightarrow> real \<Rightarrow> real
     \<Rightarrow> CurvyLineSearchState" where
  "ls_init A b x g alpha0 f_max proj tau gamma =
    (let alpha = alpha0;
         scale = 1;
         (x_new, r_new, d_new, gtd, f_val, f_lim) =
            candidate A b x g f_max proj tau gamma alpha scale
     in \<lparr>ls_alpha = alpha, ls_scale = scale,
         ls_x_new = x_new, ls_r_new = r_new, ls_d_new = d_new,
         ls_gtd = gtd, ls_d_norm_old = 0,
         ls_f_val = f_val, ls_f_lim = f_max,
         ls_n_iters = 1, ls_n_safe = 0\<rparr>)"

definition ls_next_func ::
  "linop \<Rightarrow> vec \<Rightarrow> vec \<Rightarrow> vec \<Rightarrow> real \<Rightarrow> (vec \<Rightarrow> real \<Rightarrow> vec) \<Rightarrow> real \<Rightarrow> real \<Rightarrow> real
     \<Rightarrow> CurvyLineSearchState \<Rightarrow> CurvyLineSearchState" where
  "ls_next_func A b x g f_max proj tau gamma g_norm state =
    (let alpha = ls_alpha state;
         alpha = alpha / 2;
         d_norm = norm2 (ls_d_new state);
         d_norm_old = ls_d_norm_old state;
         too_close = (\<bar>d_norm - d_norm_old\<bar> \<le> 1 / 10 ^ 6 * d_norm);
         scale = ls_scale state;
         n_safe = ls_n_safe state;
         (scale, n_safe) =
            (if too_close then (d_norm / g_norm / 2 ^ nat n_safe, n_safe + 1)
             else (scale, n_safe));
         (x_new, r_new, d_new, gtd, f_val, f_lim) =
            candidate A b x g f_max proj tau gamma alpha scale
     in \<lparr>ls_alpha = alpha, ls_scale = scale,
         ls_x_new = x_new, ls_r_new = r_new, ls_d_new = d_new,
         ls_gtd = gtd, ls_d_norm_old = d_norm,
         ls_f_val = f_val, ls_f_lim = f_lim,
         ls_n_iters = ls_n_iters state + 1, ls_n_safe = n_safe\<rparr>)"

definition ls_cond_func :: "int \<Rightarrow> CurvyLineSearchState \<Rightarrow> bool" where
  "ls_cond_func max_iters state =
    (let a = ls_n_iters state < max_iters;
         b = ls_gtd state < 0;
         c = ls_f_val state \<ge> ls_f_lim state;
         a = (a \<and> b);
         a = (a \<and> c)
     in a)"

text \<open>\<open>lax.while_loop(cond_func, next_func, state)\<close>.\<close>

function ls_while ::
  "linop \<Rightarrow> vec \<Rightarrow> vec \<Rightarrow> vec \<Rightarrow> real \<Rightarrow> (vec \<Rightarrow> real \<Rightarrow> vec) \<Rightarrow> real \<Rightarrow> real \<Rightarrow> real
     \<Rightarrow> int \<Rightarrow> CurvyLineSearchState \<Rightarrow> CurvyLineSearchState" where
  "ls_while A b x g f_max proj tau gamma g_norm max_iters state =
    (if ls_cond_func max_iters state
     then ls_while A b x g f_max proj tau gamma g_norm max_iters
            (ls_next_func A b x g f_max proj tau gamma g_norm state)
     else state)"
  by pat_completeness auto
termination
  by (relation "measure (\<lambda>(A, b, x, g, f_max, proj, tau, gamma, g_norm, max_iters, state).
                    nat (max_iters - ls_n_iters state))")
     (auto simp: ls_cond_func_def ls_next_func_def Let_def split: prod.splits)

declare ls_while.simps [simp del]

definition curvy_line_search ::
  "linop \<Rightarrow> vec \<Rightarrow> vec \<Rightarrow> vec \<Rightarrow> real \<Rightarrow> real \<Rightarrow> (vec \<Rightarrow> real \<Rightarrow> vec) \<Rightarrow> real \<Rightarrow> real
     \<Rightarrow> CurvyLineSearchState" where
  "curvy_line_search A b x g alpha0 f_max proj tau gamma =
    (let (m, n) = op_shape A;
         max_iters = 10;
         n2 = sqrt (real n);
         g_norm = norm2 g / n2;
         state = ls_init A b x g alpha0 f_max proj tau gamma;
         state = ls_while A b x g f_max proj tau gamma g_norm max_iters state
     in state)"


text \<open>
  The identity on vectors of length one: the smallest operator that meets the contract,
  used as a concrete input.
\<close>

definition unit_op :: linop where
  "unit_op = \<lparr>op_times = id, op_trans = id, op_shape = (1, 1)\<rparr>"

text \<open>
  The invariant of the loop of the line search: the step stays nonnegative, and the limit
  of a descending candidate does not exceed the reference value.
\<close>

definition ls_inv :: "real \<Rightarrow> CurvyLineSearchState \<Rightarrow> bool" where
  "ls_inv f_max s \<longleftrightarrow> 0 \<le> ls_alpha s \<and> (ls_gtd s < 0 \<longrightarrow> ls_f_lim s \<le> f_max)"


section \<open>SPG-L1 solver for the LASSO problem\<close>

text \<open>
  The source raises nothing itself; two failures of the language and of the array
  library are branches of the model: a name that is bound nowhere, and \<open>jnp.max\<close> of
  an empty array.  \<open>NonFinite v\<close> is no exception of the program: the model follows a
  run as long as its numbers are finite, and where \<open>tau\<close> takes the value \<open>v\<close> that
  is an infinity or not a number, the model ends the run with that value, while the program
  goes on with it.
\<close>

datatype error = NameError string | ValueError | NonFinite float_val

definition finite_value :: "float_val \<Rightarrow> error + real" where
  "finite_value v = (case v of Fin q \<Rightarrow> Inr q
                      | PInf \<Rightarrow> Inl (NonFinite PInf)
                      | NInf \<Rightarrow> Inl (NonFinite NInf)
                      | NaN \<Rightarrow> Inl (NonFinite NaN))"

text \<open>
  \<open>lasso_metrics\<close> is a function of the module, not a closure of the solver: the names
  \<open>b\<close> and \<open>tau\<close> in its body are neither parameters nor locals, so they are looked up
  among the globals of the module when the body runs.  The record holds the bindings of
  these two names, when there are any; the module as written binds neither.
\<close>

record module_globals =
  glob_b :: "vec option"
  glob_tau :: "real option"

definition spgl1_globals :: module_globals where
  "spgl1_globals = \<lparr>glob_b = None, glob_tau = None\<rparr>"

definition lasso_metrics ::
  "module_globals \<Rightarrow> vec \<Rightarrow> vec \<Rightarrow> vec \<Rightarrow> real \<Rightarrow> error + (real \<times> real)" where
  "lasso_metrics G x g r f =
    (let g_dnorm = dual_norm g;
         r_norm = norm2 r
     in case glob_b G of
          None \<Rightarrow> Inl (NameError ''b'')
        | Some b \<Rightarrow>
           (case glob_tau G of
              None \<Rightarrow> Inl (NameError ''tau'')
            | Some tau \<Rightarrow>
               (let gap = dot r (vsub r b) + tau * g_dnorm;
                    f_m = max 1 f;
                    r_gap = \<bar>gap\<bar> / f_m
                in Inr (r_norm, r_gap))))"

text \<open>
  The two state tuples of the source have the same fields, \<open>SPGL1BPState\<close> three more;
  the second record extends the first, so the selectors are shared.
\<close>

record SPGL1LassoState =
  st_x :: vec
  st_g :: vec
  st_r :: vec
  st_f_past :: vec
  st_r_norm :: real
  st_r_gap :: real
  st_alpha :: real
  st_alpha_next :: real
  st_iterations :: int
  st_n_times :: int
  st_n_trans :: int
  st_n_newton :: int
  st_n_ls_iters :: int

record SPGL1BPState = SPGL1LassoState +
  st_tau :: real
  st_r_res_error :: real
  st_r_f_error :: real

text \<open>\<open>jnp.max\<close> of an array; an empty array has no maximum and the call raises.\<close>

definition amax :: "vec \<Rightarrow> error + real" where
  "amax v = (case v of [] \<Rightarrow> Inl ValueError | y # ys \<Rightarrow> Inr (fold max ys y))"

text \<open>
  The first spectral step \<open>clip(1. / d_norm, alpha_min, alpha_max)\<close>.  In floating point
  \<open>1. / 0\<close> is \<open>inf\<close>, which \<open>clip\<close> takes to \<open>alpha_max\<close>; the model says so instead of
  dividing by zero.
\<close>

definition initial_step :: "real \<Rightarrow> real \<Rightarrow> real \<Rightarrow> real" where
  "initial_step d_norm alpha_min alpha_max =
    (if d_norm = 0 then alpha_max
     else (let alpha = 1 / d_norm;
               alpha = clip alpha alpha_min alpha_max
           in alpha))"

text \<open>
  The closures \<open>init\<close>, \<open>body_func\<close> and \<open>cond_func\<close> of \<open>solve_lasso_from\<close>.
  \<open>crn.cbuf_push_left\<close> belongs to the array library and is a parameter.
\<close>

definition lasso_init ::
  "module_globals \<Rightarrow> linop \<Rightarrow> vec \<Rightarrow> real \<Rightarrow> vec \<Rightarrow> SPGL1Options
     \<Rightarrow> error + SPGL1LassoState" where
  "lasso_init G A b tau x0 options =
    (let alpha_min = o_alpha_min options;
         alpha_max = o_alpha_max options;
         x = x0;
         x = project_to_l1_ball x tau;
         r = vsub b (op_times A x);
         g = vneg (op_trans A r);
         f = obj_val r;
         f_past = replicate (o_memory options) f;
         d = vsub (project_to_l1_ball (vsub x g) tau) x;
         d_norm = norm_linf d;
         alpha = initial_step d_norm alpha_min alpha_max
     in case lasso_metrics G x g r f of
          Inl e \<Rightarrow> Inl e
        | Inr (r_norm, r_gap) \<Rightarrow>
            Inr \<lparr>st_x = x, st_g = g, st_r = r,
                 st_f_past = f_past,
                 st_r_norm = r_norm, st_r_gap = r_gap, st_alpha = alpha,
                 st_alpha_next = alpha,
                 st_iterations = 1, st_n_times = 2, st_n_trans = 2,
                 st_n_newton = 0, st_n_ls_iters = 0\<rparr>)"

definition lasso_body_func ::
  "module_globals \<Rightarrow> (vec \<Rightarrow> real \<Rightarrow> vec) \<Rightarrow> linop \<Rightarrow> vec \<Rightarrow> real \<Rightarrow> SPGL1Options
     \<Rightarrow> SPGL1LassoState \<Rightarrow> error + SPGL1LassoState" where
  "lasso_body_func G cbuf_push_left A b tau options state =
    (let alpha_min = o_alpha_min options;
         alpha_max = o_alpha_max options
     in case amax (st_f_past state) of
          Inl e \<Rightarrow> Inl e
        | Inr f_max \<Rightarrow>
           (let lsearch = curvy_line_search A b (st_x state)
                            (st_g state) (st_alpha_next state) f_max
                            project_to_l1_ball tau
                            (o_gamma options);
                 x = ls_x_new lsearch;
                 r = ls_r_new lsearch;
                 g = vneg (op_trans A r);
                 f = ls_f_val lsearch;
                 f_past = cbuf_push_left (st_f_past state) f
            in case lasso_metrics G x g r f of
                 Inl e \<Rightarrow> Inl e
               | Inr (r_norm, r_gap) \<Rightarrow>
                  (let s = vsub x (st_x state);
                       y = vsub g (st_g state);
                       sts = dot s s;
                       sty = dot s y;
                       alpha_next = (if sty \<le> 0 then alpha_max
                                     else clip (sts / sty) alpha_min alpha_max)
                   in Inr \<lparr>st_x = x, st_g = g, st_r = r,
                           st_f_past = f_past,
                           st_r_norm = r_norm, st_r_gap = r_gap,
                           st_alpha = ls_alpha lsearch,
                           st_alpha_next = alpha_next,
                           st_iterations = st_iterations state + 1,
                           st_n_times = 2, st_n_trans = 2,
                           st_n_newton = st_n_newton state,
                           st_n_ls_iters = ls_n_iters lsearch\<rparr>)))"

definition lasso_cond_func :: "real \<Rightarrow> SPGL1Options \<Rightarrow> SPGL1LassoState \<Rightarrow> bool" where
  "lasso_cond_func b_norm options state =
    (let opt_tol = o_opt_tol options;
         a = st_iterations state < o_max_iters options;
         b = st_r_gap state > opt_tol;
         c = st_r_norm state \<ge> opt_tol * b_norm;
         a = (a \<and> b);
         a = (a \<and> c)
     in a)"

function lasso_while ::
  "module_globals \<Rightarrow> (vec \<Rightarrow> real \<Rightarrow> vec) \<Rightarrow> linop \<Rightarrow> vec \<Rightarrow> real \<Rightarrow> SPGL1Options
     \<Rightarrow> real \<Rightarrow> SPGL1LassoState \<Rightarrow> error + SPGL1LassoState" where
  "lasso_while G cbuf_push_left A b tau options b_norm state =
    (if lasso_cond_func b_norm options state
     then (case lasso_body_func G cbuf_push_left A b tau options state of
             Inl e \<Rightarrow> Inl e
           | Inr state' \<Rightarrow> lasso_while G cbuf_push_left A b tau options b_norm state')
     else Inr state)"
  by pat_completeness auto
termination
  by (relation "measure (\<lambda>(G, cbuf_push_left, A, b, tau, options, b_norm, state).
                    nat (o_max_iters options - st_iterations state))")
     (auto simp: lasso_cond_func_def lasso_body_func_def Let_def split: sum.splits prod.splits)

declare lasso_while.simps [simp del]

definition solve_lasso_from ::
  "module_globals \<Rightarrow> (vec \<Rightarrow> real \<Rightarrow> vec) \<Rightarrow> linop \<Rightarrow> vec \<Rightarrow> real \<Rightarrow> vec \<Rightarrow> SPGL1Options
     \<Rightarrow> error + SPGL1LassoState" where
  "solve_lasso_from G cbuf_push_left A b tau x0 options =
    (let b_norm = norm2 b
     in case lasso_init G A b tau x0 options of
          Inl e \<Rightarrow> Inl e
        | Inr state \<Rightarrow> lasso_while G cbuf_push_left A b tau options b_norm state)"

definition solve_lasso ::
  "module_globals \<Rightarrow> (vec \<Rightarrow> real \<Rightarrow> vec) \<Rightarrow> linop \<Rightarrow> vec \<Rightarrow> real \<Rightarrow> SPGL1Options
     \<Rightarrow> error + SPGL1LassoState" where
  "solve_lasso G cbuf_push_left A b tau options =
    (let (m, n) = op_shape A;
         x0 = replicate n 0
     in solve_lasso_from G cbuf_push_left A b tau x0 options)"


section \<open>SPG-L1 solver for the BPIC problem\<close>

definition bpic_metrics ::
  "vec \<Rightarrow> vec \<Rightarrow> vec \<Rightarrow> vec \<Rightarrow> real \<Rightarrow> real \<Rightarrow> real
     \<Rightarrow> real \<times> real \<times> real \<times> real \<times> real" where
  "bpic_metrics b x g r f sigma tau =
    (let g_dnorm = dual_norm g;
         r_norm = norm2 r;
         gap = dot r (vsub r b) + tau * g_dnorm;
         f_m = max 1 f;
         r_m = max 1 r_norm;
         r_gap = \<bar>gap\<bar> / f_m;
         res_error = r_norm - sigma;
         f_error = f - sigma\<^sup>2 / 2;
         r_res_error = \<bar>res_error\<bar> / r_m;
         r_f_error = \<bar>f_error\<bar> / f_m
     in (g_dnorm, r_norm, r_gap, r_res_error, r_f_error))"

definition tau_change :: "linop \<Rightarrow> vec \<Rightarrow> real \<Rightarrow> real \<Rightarrow> real" where
  "tau_change A r r_norm sigma =
    (let y = map (\<lambda>v. v / r_norm) r;
         lambda = norm_linf (op_trans A y);
         phi = r_norm;
         phi_d = - lambda;
         change = (sigma - phi) / phi_d
     in change)"

definition compute_rgf :: "linop \<Rightarrow> vec \<Rightarrow> vec \<Rightarrow> vec \<times> vec \<times> real" where
  "compute_rgf A b x =
    (let r = vsub b (op_times A x);
         g = vneg (op_trans A r);
         f = obj_val r
     in (r, g, f))"

definition update_xrgf :: "linop \<Rightarrow> vec \<Rightarrow> vec \<Rightarrow> real \<Rightarrow> vec \<times> vec \<times> vec \<times> real" where
  "update_xrgf A b x tau =
    (let x = project_to_l1_ball x tau;
         r = vsub b (op_times A x);
         g = vneg (op_trans A r);
         f = obj_val r
     in (x, r, g, f))"

text \<open>The closures \<open>init\<close>, \<open>body_func\<close> and \<open>cond_func\<close> of \<open>solve_bpic_from\<close>.\<close>

definition bpic_init ::
  "linop \<Rightarrow> vec \<Rightarrow> real \<Rightarrow> vec \<Rightarrow> SPGL1Options \<Rightarrow> error + SPGL1BPState" where
  "bpic_init A b sigma x0 options =
    (let alpha_min = o_alpha_min options;
         alpha_max = o_alpha_max options;
         x = x0;
         tau = norm_l1 x;
         (x, r, g, f) = update_xrgf A b x tau;
         (g_dnorm, r_norm, r_gap, r_res_error, r_f_error) = bpic_metrics b x g r f sigma tau
     in case finite_value (fmaximum0 (fadd tau (fdiv (r_norm * (r_norm - sigma)) g_dnorm))) of
          Inl e \<Rightarrow> Inl e
        | Inr tau \<Rightarrow>
           (let (x, r, g, f) = update_xrgf A b x tau;
                (g_dnorm, r_norm, r_gap, r_res_error, r_f_error) =
                   bpic_metrics b x g r f sigma tau;
                d = vsub (project_to_l1_ball (vsub x g) tau) x;
                d_norm = norm_linf d;
                alpha = initial_step d_norm alpha_min alpha_max;
                f_past = replicate (o_memory options) f
            in Inr \<lparr>st_x = x, st_g = g, st_r = r,
                    st_f_past = f_past,
                    st_r_norm = r_norm, st_r_gap = r_gap,
                    st_alpha = alpha,
                    st_alpha_next = alpha,
                    st_iterations = 1, st_n_times = 2, st_n_trans = 2,
                    st_n_newton = 0, st_n_ls_iters = 0,
                    st_tau = tau,
                    st_r_res_error = r_res_error, st_r_f_error = r_f_error\<rparr>))"

definition bpic_body_func ::
  "(vec \<Rightarrow> real \<Rightarrow> vec) \<Rightarrow> linop \<Rightarrow> vec \<Rightarrow> real \<Rightarrow> SPGL1Options
     \<Rightarrow> SPGL1BPState \<Rightarrow> error + SPGL1BPState" where
  "bpic_body_func cbuf_push_left A b sigma options state =
    (let alpha_min = o_alpha_min options;
         alpha_max = o_alpha_max options
     in case amax (st_f_past state) of
          Inl e \<Rightarrow> Inl e
        | Inr f_max \<Rightarrow>
           (let lsearch = curvy_line_search A b (st_x state)
                            (st_g state) (st_alpha_next state) f_max
                            project_to_l1_ball (st_tau state)
                            (o_gamma options);
                 x = ls_x_new lsearch;
                 r = ls_r_new lsearch;
                 g = vneg (op_trans A r);
                 f = ls_f_val lsearch;
                 (g_dnorm, r_norm, r_gap, r_res_error, r_f_error) =
                    bpic_metrics b x g r f sigma (st_tau state);
                 f_change = \<bar>f - hd (st_f_past state)\<bar>;
                 flag_c = ((f_change \<le> o_dec_tol options * f \<and> r_norm > 2 * sigma)
                           \<or> (f_change \<le> 1 / 10 * f * \<bar>r_norm - sigma\<bar> \<and> r_norm \<le> 2 * sigma))
            in case (if flag_c
                     then finite_value (fmaximum0 (fadd (st_tau state)
                                          (fdiv (r_norm * (r_norm - sigma)) g_dnorm)))
                     else Inr (st_tau state)) of
                 Inl e \<Rightarrow> Inl e
               | Inr tau \<Rightarrow>
                  (let (x, r, g, f) = (if tau < st_tau state
                                       then update_xrgf A b x tau
                                       else (x, r, g, f));
                       f_past = cbuf_push_left (st_f_past state) f;
                       s = vsub x (st_x state);
                       y = vsub g (st_g state);
                       sts = dot s s;
                       sty = dot s y;
                       alpha_next = (if sty \<le> 0 then alpha_max
                                     else clip (sts / sty) alpha_min alpha_max)
                   in Inr \<lparr>st_x = x, st_g = g, st_r = r,
                           st_f_past = f_past,
                           st_r_norm = r_norm, st_r_gap = r_gap,
                           st_alpha = ls_alpha lsearch,
                           st_alpha_next = alpha_next,
                           st_iterations = st_iterations state + 1,
                           st_n_times = 2, st_n_trans = 2,
                           st_n_newton = st_n_newton state,
                           st_n_ls_iters = ls_n_iters lsearch,
                           st_tau = tau,
                           st_r_res_error = r_res_error, st_r_f_error = r_f_error\<rparr>)))"

definition bpic_cond_func :: "real \<Rightarrow> real \<Rightarrow> SPGL1Options \<Rightarrow> SPGL1BPState \<Rightarrow> bool" where
  "bpic_cond_func sigma b_norm options state =
    (let opt_tol = o_opt_tol options;
         a = st_r_gap state > max opt_tol (st_r_f_error state);
         b = st_r_res_error state > opt_tol;
         u = st_r_norm state > sigma;
         v = st_r_res_error state > opt_tol;
         w = st_r_norm state > o_bp_tol options * b_norm;
         x = (u \<and> v \<and> w);
         cont = ((a \<and> b) \<or> x);
         cont = (cont \<and> st_iterations state < o_max_iters options)
     in cont)"

text \<open>
  The loop \<open>while cond_func(state): state = body_func(state)\<close>; the printing of the
  state is left out.
\<close>

function bpic_while ::
  "(vec \<Rightarrow> real \<Rightarrow> vec) \<Rightarrow> linop \<Rightarrow> vec \<Rightarrow> real \<Rightarrow> SPGL1Options
     \<Rightarrow> real \<Rightarrow> SPGL1BPState \<Rightarrow> error + SPGL1BPState" where
  "bpic_while cbuf_push_left A b sigma options b_norm state =
    (if bpic_cond_func sigma b_norm options state
     then (case bpic_body_func cbuf_push_left A b sigma options state of
             Inl e \<Rightarrow> Inl e
           | Inr state' \<Rightarrow> bpic_while cbuf_push_left A b sigma options b_norm state')
     else Inr state)"
  by pat_completeness auto
termination
  by (relation "measure (\<lambda>(cbuf_push_left, A, b, sigma, options, b_norm, state).
                    nat (o_max_iters options - st_iterations state))")
     (auto simp: bpic_cond_func_def bpic_body_func_def Let_def split: sum.splits prod.splits)

declare bpic_while.simps [simp del]

definition solve_bpic_from ::
  "(vec \<Rightarrow> real \<Rightarrow> vec) \<Rightarrow> linop \<Rightarrow> vec \<Rightarrow> real \<Rightarrow> vec \<Rightarrow> SPGL1Options
     \<Rightarrow> error + SPGL1BPState" where
  "solve_bpic_from cbuf_push_left A b sigma x0 options =
    (let b_norm = norm2 b
     in case bpic_init A b sigma x0 options of
          Inl e \<Rightarrow> Inl e
        | Inr state \<Rightarrow> bpic_while cbuf_push_left A b sigma options b_norm state)"

definition solve_bpic ::
  "(vec \<Rightarrow> real \<Rightarrow> vec) \<Rightarrow> linop \<Rightarrow> vec \<Rightarrow> real \<Rightarrow> SPGL1Options \<Rightarrow> error + SPGL1BPState" where
  "solve_bpic cbuf_push_left A b sigma options =
    (let (m, n) = op_shape A;
         x0 = replicate n 0
     in solve_bpic_from cbuf_push_left A b sigma x0 options)"


section \<open>The states a solve goes through\<close>



section \<open>Applications of the operator\<close>






section \<open>Concrete inputs\<close>

text \<open>
  One circular buffer push (shift to the left, the new value last), for concrete runs;
  the solvers take the push of the array library as a parameter.
\<close>

definition shift_push :: "vec \<Rightarrow> real \<Rightarrow> vec" where
  "shift_push buf val = tl buf @ [val]"

text \<open>
  The BPIC solver on the unit operator with \<open>b = [1]\<close>.  From \<open>x0 = [0]\<close> with
  \<open>sigma = 0\<close>: the state \<open>bp0\<close> after \<open>init\<close> and the state \<open>bp1\<close> after one step.
  From \<open>x0 = [1/2]\<close> with \<open>sigma = 3/4\<close>: the state \<open>bs0\<close> after \<open>init\<close>, where
  \<open>tau\<close> shrinks from \<open>1/2\<close> to \<open>1/4\<close> and \<open>x0\<close> is projected to \<open>[1/4]\<close>.  A
  state \<open>bp2\<close> from which one step with \<open>sigma = 5/4\<close> shrinks \<open>tau\<close> and leads to
  \<open>bp3\<close>.  With the options \<open>alpha_min = -2\<close> and \<open>alpha_max = -1\<close>, from
  \<open>x0 = [0]\<close> with \<open>sigma = 0\<close>: the state \<open>bn0\<close> after \<open>init\<close> and the state
  \<open>bn1\<close> after one step.
\<close>

definition bp0 :: SPGL1BPState where
  "bp0 = \<lparr>st_x = [0], st_g = [-1], st_r = [1], st_f_past = replicate 10 (1/2),
          st_r_norm = 1, st_r_gap = 1, st_alpha = 1, st_alpha_next = 1,
          st_iterations = 1, st_n_times = 2, st_n_trans = 2, st_n_newton = 0,
          st_n_ls_iters = 0, st_tau = 1, st_r_res_error = 1, st_r_f_error = 1/2\<rparr>"

definition bp1 :: "(vec \<Rightarrow> real \<Rightarrow> vec) \<Rightarrow> SPGL1BPState" where
  "bp1 cb = \<lparr>st_x = [1], st_g = [0], st_r = [0], st_f_past = cb (replicate 10 (1/2)) 0,
          st_r_norm = 0, st_r_gap = 0, st_alpha = 1, st_alpha_next = 1,
          st_iterations = 2, st_n_times = 2, st_n_trans = 2, st_n_newton = 0,
          st_n_ls_iters = 1, st_tau = 1, st_r_res_error = 0, st_r_f_error = 0\<rparr>"

definition bs0 :: SPGL1BPState where
  "bs0 = \<lparr>st_x = [1/4], st_g = [- (3/4)], st_r = [3/4], st_f_past = replicate 10 (9/32),
          st_r_norm = 3/4, st_r_gap = 0, st_alpha = 100000, st_alpha_next = 100000,
          st_iterations = 1, st_n_times = 2, st_n_trans = 2, st_n_newton = 0,
          st_n_ls_iters = 0, st_tau = 1/4, st_r_res_error = 0, st_r_f_error = 0\<rparr>"







section \<open>Properties of the projection\<close>

subsection \<open>Running sums, shrinkage and the descending sort\<close>

lemma length_cumsum_from: "length (cumsum_from a vs) = length vs"
  by (induction vs arbitrary: a) auto

lemma nth_cumsum_from:
  "i < length vs \<Longrightarrow> cumsum_from a vs ! i = a + sum_list (take (Suc i) vs)"
proof (induction vs arbitrary: a i)
  case Nil
  then show ?case by simp
next
  case (Cons v vs)
  then show ?case by (cases i) (auto simp: add.assoc)
qed

lemma length_cumsum: "length (cumsum u) = length u"
  by (simp add: cumsum_def length_cumsum_from)

lemma nth_cumsum: "i < length u \<Longrightarrow> cumsum u ! i = sum_list (take (Suc i) u)"
  by (simp add: cumsum_def nth_cumsum_from)

lemma abs_shrink: "0 \<le> kappa \<Longrightarrow> \<bar>shrink kappa t\<bar> = max 0 (\<bar>t\<bar> - kappa)"
  by (auto simp: shrink_def max_def min_def)

lemma shrink_residual_mult:
  "0 \<le> kappa \<Longrightarrow> (t - shrink kappa t) * shrink kappa t = kappa * \<bar>shrink kappa t\<bar>"
  by (auto simp: shrink_def max_def min_def algebra_simps)

lemma shrink_residual_bound: "0 \<le> kappa \<Longrightarrow> \<bar>t - shrink kappa t\<bar> \<le> kappa"
  by (auto simp: shrink_def max_def min_def)

lemma sum_list_map_desc:
  fixes h :: "real \<Rightarrow> real"
  shows "sum_list (map h (rev (sort (ys::real list)))) = sum_list (map h ys)"
proof -
  have "mset (map h (rev (sort ys))) = mset (map h ys)"
    by simp
  then show ?thesis
    by (metis sum_mset_sum_list)
qed

lemma sum_take_ge:
  assumes "\<forall>v \<in> set vs. kappa \<le> v"
  shows "sum_list (map (\<lambda>v. max 0 (v - kappa)) vs) = sum_list vs - real (length vs) * kappa"
  using assms by (induction vs) (auto simp: algebra_simps max_def)

lemma sum_drop_le:
  fixes vs :: "real list"
  assumes "\<forall>v \<in> set vs. v \<le> kappa"
  shows "sum_list (map (\<lambda>v. max 0 (v - kappa)) vs) = 0"
  using assms by (induction vs) (auto simp: max_def)

lemma sum_split_at:
  fixes u :: "real list"
  assumes srt: "sorted_wrt (\<ge>) u" and K: "1 \<le> K" "K \<le> length u"
    and lo: "kappa \<le> u ! (K - 1)"
    and hi: "K < length u \<Longrightarrow> u ! K \<le> kappa"
  shows "sum_list (map (\<lambda>v. max 0 (v - kappa)) u) = sum_list (take K u) - real K * kappa"
proof -
  have a: "\<forall>v \<in> set (take K u). kappa \<le> v"
  proof
    fix v assume "v \<in> set (take K u)"
    then obtain i where i: "i < K" "v = u ! i"
      using K by (auto simp: in_set_conv_nth)
    show "kappa \<le> v"
    proof (cases "i = K - 1")
      case True
      with lo i show ?thesis by simp
    next
      case False
      with i K have "i < K - 1" "K - 1 < length u" by auto
      with sorted_wrt_nth_less [OF srt, of i "K - 1"] have "u ! i \<ge> u ! (K - 1)"
        by simp
      with lo i show ?thesis by simp
    qed
  qed
  have b: "\<forall>v \<in> set (drop K u). v \<le> kappa"
  proof
    fix v assume "v \<in> set (drop K u)"
    then obtain j where j: "j < length u - K" "v = u ! (K + j)"
      by (auto simp: in_set_conv_nth)
    then have Kl: "K < length u" by simp
    show "v \<le> kappa"
    proof (cases "j = 0")
      case True
      with hi Kl j show ?thesis by simp
    next
      case False
      with j have "K < K + j" "K + j < length u" by auto
      with sorted_wrt_nth_less [OF srt, of K "K + j"] have "u ! K \<ge> u ! (K + j)"
        by simp
      with hi Kl j show ?thesis by simp
    qed
  qed
  have "sum_list (map (\<lambda>v. max 0 (v - kappa)) u)
      = sum_list (map (\<lambda>v. max 0 (v - kappa)) (take K u))
      + sum_list (map (\<lambda>v. max 0 (v - kappa)) (drop K u))"
    by (metis append_take_drop_id map_append sum_list_append)
  also have "\<dots> = sum_list (take K u) - real K * kappa"
    using sum_take_ge [OF a] sum_drop_le [OF b] K by simp
  finally show ?thesis .
qed


lemma length_scan_flags: "length (scan_flags u q) = length u"
  by (simp add: scan_flags_def length_cumsum del: upt_Suc)

lemma nth_arange:
  "i < n \<Longrightarrow> map real [1..<1 + n] ! i = real (Suc i)"
  by (simp del: upt_Suc)

lemma nth_scan_flags:
  "i < length u \<Longrightarrow>
     scan_flags u q ! i = (sum_list (take (Suc i) u) - q > u ! i * real (Suc i))"
  by (simp add: scan_flags_def length_cumsum nth_cumsum nth_arange del: upt_Suc)

lemma argmax_none: "True \<notin> set flags \<Longrightarrow> argmax flags = 0"
  by (simp add: argmax_def)

lemma argmax_first:
  assumes "True \<in> set flags"
  shows "argmax flags < length flags" and "flags ! argmax flags"
    and "\<forall>i < argmax flags. \<not> flags ! i"
proof -
  let ?k = "length (takeWhile Not flags)"
  have k: "argmax flags = ?k"
    using assms by (simp add: argmax_def)
  have "takeWhile Not flags \<noteq> flags"
    using assms by (metis (full_types) set_takeWhileD)
  then have lt: "?k < length flags"
    by (metis length_takeWhile_le le_neq_implies_less takeWhile_eq_take take_all_iff order_refl)
  from nth_length_takeWhile [OF lt] have "flags ! ?k" by simp
  moreover have "\<forall>i < ?k. \<not> flags ! i"
    by (metis nth_mem set_takeWhileD takeWhile_nth)
  ultimately show "argmax flags < length flags" and "flags ! argmax flags"
    and "\<forall>i < argmax flags. \<not> flags ! i"
    using k lt by simp_all
qed

lemma take_Suc_sum:
  fixes u :: "real list"
  shows "k < length u \<Longrightarrow> sum_list (take (Suc k) u) = sum_list (take k u) + u ! k"
  by (simp add: take_Suc_conv_app_nth)

lemma breakpoint:
  fixes u :: "real list"
  assumes q: "0 \<le> q" and big: "q < sum_list u" and nonneg: "\<forall>v \<in> set u. 0 \<le> v"
  defines "K0 \<equiv> argmax (scan_flags u q)"
  defines "K \<equiv> (if K0 = 0 then length (scan_flags u q) else K0)"
  defines "kappa \<equiv> (cumsum u ! (K - 1) - q) / real K"
  shows "1 \<le> K" and "K \<le> length u" and "0 \<le> kappa"
    and "kappa \<le> u ! (K - 1)" and "K < length u \<longrightarrow> u ! K \<le> kappa"
    and "kappa = (sum_list (take K u) - q) / real K"
    and "K0 = 0 \<longrightarrow> kappa = (sum_list u - q) / real (length u)"
proof -
  let ?f = "scan_flags u q"
  have ne: "u \<noteq> []" using q big by auto
  then have n: "0 < length u" by simp
  have f0: "\<not> ?f ! 0"
    using n q by (simp add: nth_scan_flags take_Suc_conv_app_nth)
  have n1: "Suc 0 \<le> length u" using ne by (cases u) auto
  show K1: "1 \<le> K" using n1 by (auto simp: K_def length_scan_flags)
  show Kn: "K \<le> length u"
  proof (cases "True \<in> set ?f")
    case True
    from argmax_first(1) [OF True] show ?thesis
      by (simp add: K_def K0_def length_scan_flags)
  next
    case False
    then show ?thesis by (simp add: K_def K0_def argmax_none length_scan_flags)
  qed
  have Kpos: "0 < real K" using K1 by simp
  have K1n: "K - 1 < length u" using K1 Kn by simp
  show kap: "kappa = (sum_list (take K u) - q) / real K"
    using K1 K1n by (simp add: kappa_def nth_cumsum)
  have notflag: "\<not> ?f ! (K - 1)"
  proof (cases "True \<in> set ?f")
    case True
    note fst = argmax_first [OF True]
    have "K0 \<noteq> 0" using fst(2) f0 unfolding K0_def by metis
    then have "K = K0" by (simp add: K_def)
    then have "K - 1 < argmax ?f" using K1 by (simp add: K0_def)
    with fst(3) show ?thesis by blast
  next
    case False
    then show ?thesis using K1n by (metis length_scan_flags nth_mem)
  qed
  then have "sum_list (take K u) - q \<le> u ! (K - 1) * real K"
    using K1 K1n by (simp add: nth_scan_flags)
  then show "kappa \<le> u ! (K - 1)"
    using Kpos by (simp add: kap pos_divide_le_eq)
  have upper: "u ! K * real K < sum_list (take K u) - q" if "K < length u"
  proof -
    have T: "True \<in> set ?f"
    proof (rule ccontr)
      assume "True \<notin> set ?f"
      then have "K = length u" by (simp add: K_def K0_def argmax_none length_scan_flags)
      with that show False by simp
    qed
    note fst = argmax_first [OF T]
    have "K0 \<noteq> 0" using fst(2) f0 unfolding K0_def by metis
    then have "K = argmax ?f" by (simp add: K_def K0_def)
    with fst(2) have "?f ! K" by simp
    then have "u ! K * real (Suc K) < sum_list (take (Suc K) u) - q"
      using that by (simp add: nth_scan_flags)
    then show ?thesis
      using that by (simp add: take_Suc_sum algebra_simps)
  qed
  show "K < length u \<longrightarrow> u ! K \<le> kappa"
  proof
    assume "K < length u"
    from upper [OF this] show "u ! K \<le> kappa"
      using Kpos by (simp add: kap pos_le_divide_eq)
  qed
  show "0 \<le> kappa"
  proof (cases "K < length u")
    case True
    from nonneg True have "0 \<le> u ! K" by simp
    then have "0 \<le> u ! K * real K" by simp
    with upper [OF True] show ?thesis using Kpos by (simp add: kap)
  next
    case False
    with Kn have "K = length u" by simp
    with big show ?thesis by (simp add: kap)
  qed
  show "K0 = 0 \<longrightarrow> kappa = (sum_list u - q) / real (length u)"
    by (simp add: kap K_def length_scan_flags)
qed


lemma project_sorted_threshold:
  "project_to_l1_ball_sorted x q = map (shrink (threshold x q)) x"
  by (simp add: project_to_l1_ball_sorted_def threshold_def scan_flags_def Let_def)

lemma sum_list_desc: "sum_list (rev (sort (ys::real list))) = sum_list ys"
  using sum_list_map_desc [of "\<lambda>v. v" ys] by simp

lemma threshold_props:
  assumes q: "0 \<le> q" and big: "q < norm_l1 x"
  shows "0 \<le> threshold x q"
    and "sum_list (map (\<lambda>v. max 0 (\<bar>v\<bar> - threshold x q)) x) = q"
proof -
  let ?u = "rev (sort (map abs x))"
  let ?K0 = "argmax (scan_flags ?u q)"
  let ?K = "if ?K0 = 0 then length (scan_flags ?u q) else ?K0"
  have kap: "threshold x q = (cumsum ?u ! (?K - 1) - q) / real ?K"
    by (simp add: threshold_def Let_def)
  have big': "q < sum_list ?u"
    using big unfolding norm_l1_def sum_list_desc .
  have nonneg: "\<forall>v \<in> set ?u. 0 \<le> v" by auto
  note bp = breakpoint [OF q big' nonneg, folded kap]
  show "0 \<le> threshold x q" by (rule bp(3))
  have "sum_list (map (\<lambda>v. max 0 (\<bar>v\<bar> - threshold x q)) x)
      = sum_list (map (\<lambda>v. max 0 (v - threshold x q)) (map abs x))"
    by (simp add: comp_def)
  also have "\<dots> = sum_list (map (\<lambda>v. max 0 (v - threshold x q)) ?u)"
    by (rule sum_list_map_desc [symmetric])
  also have "\<dots> = sum_list (take ?K ?u) - real ?K * threshold x q"
    using bp(1,2,4,5) by (intro sum_split_at) (simp_all add: sorted_wrt_rev)
  also have "\<dots> = q"
    using bp(1) by (simp add: bp(6))
  finally show "sum_list (map (\<lambda>v. max 0 (\<bar>v\<bar> - threshold x q)) x) = q" .
qed

lemma norm_l1_shrink:
  "0 \<le> kappa \<Longrightarrow> norm_l1 (map (shrink kappa) x) = sum_list (map (\<lambda>v. max 0 (\<bar>v\<bar> - kappa)) x)"
  by (simp add: norm_l1_def comp_def abs_shrink)

lemma norm_l1_project_sorted:
  assumes "0 \<le> q" and "q < norm_l1 x"
  shows "norm_l1 (project_to_l1_ball_sorted x q) = q"
  using threshold_props [OF assms]
  by (simp add: project_sorted_threshold norm_l1_shrink)

lemma norm_l1_project:
  assumes "0 \<le> q"
  shows "norm_l1 (project_to_l1_ball x q) \<le> q"
proof (cases "q < norm_l1 x")
  case True
  with norm_l1_project_sorted [OF assms True] show ?thesis
    by (simp add: project_to_l1_ball_def arr_l1norm_def norm_l1_def)
next
  case False
  then show ?thesis
    by (simp add: project_to_l1_ball_def arr_l1norm_def norm_l1_def)
qed

lemma length_project: "length (project_to_l1_ball x q) = length x"
  by (simp add: project_to_l1_ball_def project_sorted_threshold)

lemma shrink_pointwise:
  assumes k: "0 \<le> kappa"
  shows "(t - shrink kappa t)\<^sup>2 + 2 * kappa * \<bar>shrink kappa t\<bar> - 2 * kappa * \<bar>z\<bar> \<le> (t - z)\<^sup>2"
proof -
  let ?p = "shrink kappa t"
  have "(t - z)\<^sup>2 = (t - ?p)\<^sup>2 + (?p - z)\<^sup>2 + 2 * ((t - ?p) * ?p) - 2 * ((t - ?p) * z)"
    by (simp add: power2_eq_square algebra_simps)
  moreover have "(t - ?p) * ?p = kappa * \<bar>?p\<bar>"
    by (rule shrink_residual_mult [OF k])
  moreover have "(t - ?p) * z \<le> kappa * \<bar>z\<bar>"
  proof -
    have "(t - ?p) * z \<le> \<bar>t - ?p\<bar> * \<bar>z\<bar>"
      by (metis abs_ge_self abs_mult)
    also have "\<dots> \<le> kappa * \<bar>z\<bar>"
      by (intro mult_right_mono shrink_residual_bound [OF k]) simp
    finally show ?thesis .
  qed
  moreover have "0 \<le> (?p - z)\<^sup>2" by simp
  ultimately show ?thesis by linarith
qed

lemma dot_vsub_self:
  "length x = length z \<Longrightarrow> dot (vsub x z) (vsub x z) = sum_list (map2 (\<lambda>a b. (a - b)\<^sup>2) x z)"
  by (induction x z rule: list_induct2) (simp_all add: dot_def vsub_def power2_eq_square)

lemma shrink_sum_bound:
  assumes k: "0 \<le> kappa" and len: "length x = length z"
  shows "dot (vsub x (map (shrink kappa) x)) (vsub x (map (shrink kappa) x))
           + 2 * kappa * norm_l1 (map (shrink kappa) x) - 2 * kappa * norm_l1 z
         \<le> dot (vsub x z) (vsub x z)"
  using len
proof (induction x z rule: list_induct2)
  case Nil
  then show ?case by (simp add: dot_def vsub_def norm_l1_def)
next
  case (Cons a x b z)
  from shrink_pointwise [OF k, of a b] Cons.IH show ?case
    by (simp add: dot_def vsub_def norm_l1_def power2_eq_square algebra_simps)
qed

lemma dot_self_nonneg: "0 \<le> dot v v"
  by (induction v) (simp_all add: dot_def)

lemma project_nearest:
  assumes q: "0 \<le> q" and len: "length z = length x" and z: "norm_l1 z \<le> q"
  shows "norm2 (vsub x (project_to_l1_ball x q)) \<le> norm2 (vsub x z)"
proof (cases "q < norm_l1 x")
  case True
  let ?k = "threshold x q"
  have p: "project_to_l1_ball x q = map (shrink ?k) x"
    using True by (simp add: project_to_l1_ball_def arr_l1norm_def norm_l1_def project_sorted_threshold)
  have k: "0 \<le> ?k" by (rule threshold_props(1) [OF q True])
  have l1: "norm_l1 (map (shrink ?k) x) = q"
    using norm_l1_project_sorted [OF q True] by (simp add: project_sorted_threshold)
  have "?k * norm_l1 z \<le> ?k * q"
    using k z by (rule mult_left_mono [rotated])
  with shrink_sum_bound [OF k len [symmetric]] l1
  have "dot (vsub x (map (shrink ?k) x)) (vsub x (map (shrink ?k) x)) \<le> dot (vsub x z) (vsub x z)"
    by simp
  then show ?thesis by (simp add: norm2_def p)
next
  case False
  then have "project_to_l1_ball x q = x"
    by (simp add: project_to_l1_ball_def arr_l1norm_def norm_l1_def)
  moreover have "dot (vsub x x) (vsub x x) = 0"
    by (induction x) (simp_all add: dot_def vsub_def)
  ultimately show ?thesis by (simp add: norm2_def dot_self_nonneg)
qed

subsection \<open>The claims about the projection\<close>


text \<open>
  C8.  A vector whose l1 norm is at most \<open>q\<close> is returned unchanged: the feasibility test
  comes first and selects the branch that does nothing, so the projection is the
  identity on the ball.
\<close>

theorem project_to_l1_ball_feasible_id:
  "norm_l1 x \<le> q \<Longrightarrow> project_to_l1_ball x q = x"
  by (simp add: project_to_l1_ball_def arr_l1norm_def norm_l1_def)

theorem project_to_l1_ball_feasible_id_witness:
  "norm_l1 [1/2, -1/4] \<le> 1 \<and> project_to_l1_ball [1/2, -1/4] 1 = [1/2, -1/4]"
proof -
  have h: "norm_l1 [1/2, -1/4] \<le> 1"
    by (simp add: norm_l1_def)
  from project_to_l1_ball_feasible_id [OF h] h show ?thesis
    by simp
qed

text \<open>
  C7.  For \<open>q \<ge> 0\<close> the projection keeps the length of \<open>x\<close>, has l1 norm at most
  \<open>q\<close>, and no vector of the ball of radius \<open>q\<close> is closer to \<open>x\<close> in the Euclidean
  norm.  When \<open>x\<close> is outside the ball and the scan selects index \<open>0\<close>, \<open>K\<close> is the full
  length: the result is the shrinkage of \<open>x\<close> by \<open>(\<parallel>x\<parallel>\<^sub>1 - q) / n\<close>, its l1 norm is
  exactly \<open>q\<close>, and so it has a nonzero entry whenever \<open>q > 0\<close>.
\<close>

theorem project_to_l1_ball_nearest:
  assumes "0 \<le> q"
  shows "length (project_to_l1_ball x q) = length x
       \<and> norm_l1 (project_to_l1_ball x q) \<le> q
       \<and> (\<forall>z. length z = length x \<and> norm_l1 z \<le> q \<longrightarrow>
              norm2 (vsub x (project_to_l1_ball x q)) \<le> norm2 (vsub x z))
       \<and> (q < norm_l1 x \<and> argmax (scan_flags (rev (sort (map abs x))) q) = 0 \<longrightarrow>
              project_to_l1_ball x q = map (shrink ((norm_l1 x - q) / real (length x))) x
            \<and> norm_l1 (project_to_l1_ball x q) = q
            \<and> (0 < q \<longrightarrow> (\<exists>v \<in> set (project_to_l1_ball x q). v \<noteq> 0)))"
proof (intro conjI allI impI)
  show "length (project_to_l1_ball x q) = length x"
    by (rule length_project)
  show "norm_l1 (project_to_l1_ball x q) \<le> q"
    by (rule norm_l1_project [OF assms])
next
  fix z assume "length z = length x \<and> norm_l1 z \<le> q"
  then show "norm2 (vsub x (project_to_l1_ball x q)) \<le> norm2 (vsub x z)"
    using project_nearest [OF assms] by blast
next
  assume h: "q < norm_l1 x \<and> argmax (scan_flags (rev (sort (map abs x))) q) = 0"
  let ?u = "rev (sort (map abs x))"
  have big: "q < sum_list ?u"
    using h unfolding norm_l1_def sum_list_desc by simp
  have nonneg: "\<forall>v \<in> set ?u. 0 \<le> v" by auto
  from breakpoint(7) [OF assms big nonneg] h
  have "threshold x q = (norm_l1 x - q) / real (length x)"
    unfolding norm_l1_def sum_list_desc by (simp add: threshold_def Let_def)
  with h show "project_to_l1_ball x q = map (shrink ((norm_l1 x - q) / real (length x))) x"
    by (simp add: project_to_l1_ball_def arr_l1norm_def norm_l1_def project_sorted_threshold)
  from h have p: "project_to_l1_ball x q = project_to_l1_ball_sorted x q"
    by (simp add: project_to_l1_ball_def arr_l1norm_def norm_l1_def)
  from h show eq: "norm_l1 (project_to_l1_ball x q) = q"
    by (simp add: p norm_l1_project_sorted [OF assms])
  assume "0 < q"
  show "\<exists>v \<in> set (project_to_l1_ball x q). v \<noteq> 0"
  proof (rule ccontr)
    assume "\<not> (\<exists>v \<in> set (project_to_l1_ball x q). v \<noteq> 0)"
    then have "map abs (project_to_l1_ball x q) = map (\<lambda>v. 0) (project_to_l1_ball x q)"
      by (intro map_cong) auto
    then have "norm_l1 (project_to_l1_ball x q) = sum_list (map (\<lambda>v. 0) (project_to_l1_ball x q))"
      unfolding norm_l1_def by (rule arg_cong)
    then have "norm_l1 (project_to_l1_ball x q) = 0"
      by simp
    with eq \<open>0 < q\<close> show False by simp
  qed
qed

theorem project_to_l1_ball_nearest_witness:
  "(0::real) \<le> 1
   \<and> 1 < norm_l1 [1, 1]
   \<and> argmax (scan_flags (rev (sort (map abs [1, 1]))) 1) = 0
   \<and> (length [0, 1::real] = length [1, 1::real] \<and> norm_l1 [0, 1] \<le> 1)
   \<and> project_to_l1_ball [1, 1] 1 = [1/2, 1/2]
   \<and> norm2 (vsub [1, 1] (project_to_l1_ball [1, 1] 1)) \<le> norm2 (vsub [1, 1] [0, 1])"
proof -
  have a: "(0::real) \<le> 1" by simp
  have b: "1 < norm_l1 [1, 1]" by (simp add: norm_l1_def)
  have cu: "cumsum [1, 1] = [1, 2]" by (simp add: cumsum_def)
  have fl: "scan_flags [1, 1] 1 = [False, False]" by (simp add: scan_flags_def cu)
  have c: "argmax (scan_flags (rev (sort (map abs [1, 1]))) 1) = 0"
    by (simp add: fl argmax_def)
  have d: "length [0, 1::real] = length [1, 1::real] \<and> norm_l1 [0, 1] \<le> 1"
    by (simp add: norm_l1_def)
  note t = project_to_l1_ball_nearest [OF a, of "[1, 1]"]
  from t b c
  have "project_to_l1_ball [1, 1] 1 = map (shrink ((norm_l1 [1, 1] - 1) / real (length [1, 1::real]))) [1, 1]"
    by blast
  then have e: "project_to_l1_ball [1, 1] 1 = [1/2, 1/2]"
    by (simp add: norm_l1_def shrink_def)
  from t d have f: "norm2 (vsub [1, 1] (project_to_l1_ball [1, 1] 1)) \<le> norm2 (vsub [1, 1] [0, 1])"
    by blast
  show ?thesis
    by (intro conjI a b c e f conjunct1 [OF d] conjunct2 [OF d])
qed


section \<open>Properties of the line search\<close>

lemma ls_while_stops:
  "\<not> ls_cond_func max_iters (ls_while A b x g f_max proj tau gamma g_norm max_iters state)"
proof (induction A b x g f_max proj tau gamma g_norm max_iters state rule: ls_while.induct)
  case (1 A b x g f_max proj tau gamma g_norm max_iters state)
  show ?case
  proof (cases "ls_cond_func max_iters state")
    case True
    with "1.IH" show ?thesis by (subst ls_while.simps) simp
  next
    case False
    then show ?thesis by (subst ls_while.simps) simp
  qed
qed

lemma ls_inv_init:
  "0 \<le> alpha0 \<Longrightarrow> ls_inv f_max (ls_init A b x g alpha0 f_max proj tau gamma)"
  by (simp add: ls_inv_def ls_init_def candidate_def Let_def)

lemma ls_next_alpha:
  "ls_alpha (ls_next_func A b x g f_max proj tau gamma g_norm s) = ls_alpha s / 2"
  by (simp add: ls_next_func_def candidate_def Let_def split: prod.splits)

lemma ls_next_n_iters:
  "ls_n_iters (ls_next_func A b x g f_max proj tau gamma g_norm s) = ls_n_iters s + 1"
  by (simp add: ls_next_func_def candidate_def Let_def split: prod.splits)

lemma ls_next_f_lim:
  "ls_f_lim (ls_next_func A b x g f_max proj tau gamma g_norm s) =
     f_max + gamma * ls_alpha (ls_next_func A b x g f_max proj tau gamma g_norm s)
                   * ls_gtd (ls_next_func A b x g f_max proj tau gamma g_norm s)"
  by (simp add: ls_next_func_def candidate_def Let_def split: prod.splits)

lemma ls_inv_next:
  assumes "0 \<le> gamma" and "ls_inv f_max s"
  shows "ls_inv f_max (ls_next_func A b x g f_max proj tau gamma g_norm s)"
proof -
  let ?s' = "ls_next_func A b x g f_max proj tau gamma g_norm s"
  have a: "0 \<le> ls_alpha ?s'"
    using assms(2) by (simp add: ls_next_alpha ls_inv_def)
  have "ls_f_lim ?s' \<le> f_max" if "ls_gtd ?s' < 0"
  proof -
    have "0 \<le> gamma * ls_alpha ?s'" using assms(1) a by simp
    then have "gamma * ls_alpha ?s' * ls_gtd ?s' \<le> 0"
      using that by (simp add: mult_nonneg_nonpos)
    then show ?thesis by (simp add: ls_next_f_lim)
  qed
  with a show ?thesis by (simp add: ls_inv_def)
qed

lemma ls_inv_while:
  "0 \<le> gamma \<Longrightarrow> ls_inv f_max state \<Longrightarrow>
     ls_inv f_max (ls_while A b x g f_max proj tau gamma g_norm max_iters state)"
proof (induction A b x g f_max proj tau gamma g_norm max_iters state rule: ls_while.induct)
  case (1 A b x g f_max proj tau gamma g_norm max_iters state)
  show ?case
  proof (cases "ls_cond_func max_iters state")
    case True
    from "1.prems" have "ls_inv f_max (ls_next_func A b x g f_max proj tau gamma g_norm state)"
      by (intro ls_inv_next)
    from "1.IH" [OF True "1.prems"(1) this] True show ?thesis
      by (subst ls_while.simps) simp
  next
    case False
    with "1.prems" show ?thesis by (subst ls_while.simps) simp
  qed
qed

lemma norm2_single: "norm2 [v] = \<bar>v\<bar>"
  by (simp add: norm2_def dot_def)

lemmas ls_eval =
  curvy_line_search_def ls_while.simps ls_cond_func_def ls_next_func_def ls_init_def
  candidate_def unit_op_def norm2_single vsub_def smul_def dot_def obj_val_def
  project_to_l1_ball_def arr_l1norm_def Let_def

text \<open>
  The objective is \<open>(x - b)\<^sup>2 / 2\<close> in one dimension, at \<open>x = 1\<close> with \<open>b = 0\<close>, so the
  gradient is \<open>1\<close> and the reference value \<open>1/2\<close> is the current objective.  From the
  step \<open>4096\<close> nine halvings reach the step \<open>8\<close>, which still overshoots.
\<close>

lemma ls_run_cap:
  "curvy_line_search unit_op [0] [1] [1] 4096 (1/2) project_to_l1_ball 5000 (1 / 10000) =
     \<lparr>ls_alpha = 8, ls_scale = 1, ls_x_new = [-7], ls_r_new = [7], ls_d_new = [-8],
      ls_gtd = -8, ls_d_norm_old = 16, ls_f_val = 49/2,
      ls_f_lim = 1/2 + 1 / 10000 * 8 * (-8), ls_n_iters = 10, ls_n_safe = 0\<rparr>"
  by (simp add: ls_eval)

text \<open>From the step \<open>1\<close> the first candidate is the minimiser and is accepted at once.\<close>

lemma ls_run_first:
  "curvy_line_search unit_op [0] [1] [1] 1 (1/2) project_to_l1_ball 5 (1 / 10000) =
     \<lparr>ls_alpha = 1, ls_scale = 1, ls_x_new = [0], ls_r_new = [0], ls_d_new = [-1],
      ls_gtd = -1, ls_d_norm_old = 0, ls_f_val = 0,
      ls_f_lim = 1/2, ls_n_iters = 1, ls_n_safe = 0\<rparr>"
  by (simp add: ls_eval)

text \<open>
  From the step \<open>19999/10000\<close> the first candidate lowers the objective by less than the
  sufficient decrease and is accepted all the same.
\<close>

lemma ls_run_weak:
  "curvy_line_search unit_op [0] [1] [1] (19999/10000) (1/2) project_to_l1_ball 5 (1 / 10000) =
     \<lparr>ls_alpha = 19999/10000, ls_scale = 1, ls_x_new = [-9999/10000], ls_r_new = [9999/10000],
      ls_d_new = [-19999/10000], ls_gtd = -19999/10000, ls_d_norm_old = 0,
      ls_f_val = 99980001/200000000,
      ls_f_lim = 1/2, ls_n_iters = 1, ls_n_safe = 0\<rparr>"
  by (simp add: ls_eval)

text \<open>
  C2, as stated, fails.  A search that ends because the cap of ten candidates is reached
  returns its last candidate with a negative \<open>gtd\<close> and an objective value above the
  reference value.
\<close>

theorem curvy_line_search_cap_counterexample:
  "ls_gtd (curvy_line_search unit_op [0] [1] [1] 4096 (1/2)
             project_to_l1_ball 5000 (1 / 10000)) < 0
   \<and> \<not> ls_f_val (curvy_line_search unit_op [0] [1] [1] 4096 (1/2)
             project_to_l1_ball 5000 (1 / 10000)) < 1/2"
  unfolding ls_run_cap by simp

text \<open>
  C2, amended.  With a nonnegative \<open>gamma\<close> and a nonnegative first step, a search that
  returns with a negative \<open>gtd\<close> before the cap of ten candidates returns an objective
  value strictly below the reference value \<open>f_max\<close>.
\<close>

theorem curvy_line_search_descent:
  assumes "0 \<le> gamma" and "0 \<le> alpha0"
    and "ls_gtd (curvy_line_search A b x g alpha0 f_max proj tau gamma) < 0"
    and "ls_n_iters (curvy_line_search A b x g alpha0 f_max proj tau gamma) < 10"
  shows "ls_f_val (curvy_line_search A b x g alpha0 f_max proj tau gamma) < f_max"
proof -
  obtain m n where mn: "op_shape A = (m, n)" by (cases "op_shape A")
  let ?gn = "norm2 g / sqrt (real n)"
  let ?s = "ls_while A b x g f_max proj tau gamma ?gn 10
              (ls_init A b x g alpha0 f_max proj tau gamma)"
  have eq: "curvy_line_search A b x g alpha0 f_max proj tau gamma = ?s"
    by (simp add: curvy_line_search_def mn)
  have inv: "ls_inv f_max ?s"
    by (intro ls_inv_while assms ls_inv_init)
  have "\<not> ls_cond_func 10 ?s" by (rule ls_while_stops)
  with assms(3,4) have "ls_f_val ?s < ls_f_lim ?s"
    by (simp add: eq ls_cond_func_def)
  moreover from inv assms(3) have "ls_f_lim ?s \<le> f_max"
    by (simp add: eq ls_inv_def)
  ultimately show ?thesis by (simp add: eq)
qed

theorem curvy_line_search_descent_witness:
  "(0::real) \<le> 1 / 10000 \<and> (0::real) \<le> 1
   \<and> ls_gtd (curvy_line_search unit_op [0] [1] [1] 1 (1/2)
                project_to_l1_ball 5 (1 / 10000)) < 0
   \<and> ls_n_iters (curvy_line_search unit_op [0] [1] [1] 1 (1/2)
                project_to_l1_ball 5 (1 / 10000)) < 10
   \<and> ls_f_val (curvy_line_search unit_op [0] [1] [1] 1 (1/2)
                project_to_l1_ball 5 (1 / 10000)) < 1/2"
proof -
  have a: "(0::real) \<le> 1 / 10000" and b: "(0::real) \<le> 1" by simp_all
  have c: "ls_gtd (curvy_line_search unit_op [0] [1] [1] 1 (1/2)
                project_to_l1_ball 5 (1 / 10000)) < 0"
    unfolding ls_run_first by simp
  have d: "ls_n_iters (curvy_line_search unit_op [0] [1] [1] 1 (1/2)
                project_to_l1_ball 5 (1 / 10000)) < 10"
    unfolding ls_run_first by simp
  from curvy_line_search_descent [OF a b c d] a b c d show ?thesis
    by (intro conjI)
qed

text \<open>
  C3.  The first candidate is tested against \<open>f_max\<close> itself, not against
  \<open>f_max + gamma * alpha * gtd\<close>: \<open>init\<close> stores \<open>f_max\<close> as the limit.  At this input
  the search returns its first candidate, below the cap and with a negative \<open>gtd\<close>,
  although the candidate does not satisfy the Armijo condition.
\<close>

theorem curvy_line_search_first_candidate_no_armijo:
  "ls_n_iters (curvy_line_search unit_op [0] [1] [1] (19999/10000) (1/2)
                 project_to_l1_ball 5 (1 / 10000)) = 1
   \<and> ls_gtd (curvy_line_search unit_op [0] [1] [1] (19999/10000) (1/2)
                 project_to_l1_ball 5 (1 / 10000)) < 0
   \<and> \<not> ls_f_val (curvy_line_search unit_op [0] [1] [1] (19999/10000) (1/2)
                 project_to_l1_ball 5 (1 / 10000))
        < 1/2 + 1 / 10000
            * ls_alpha (curvy_line_search unit_op [0] [1] [1] (19999/10000) (1/2)
                 project_to_l1_ball 5 (1 / 10000))
            * ls_gtd (curvy_line_search unit_op [0] [1] [1] (19999/10000) (1/2)
                 project_to_l1_ball 5 (1 / 10000))"
  unfolding ls_run_weak by simp


section \<open>Properties of the solvers\<close>

subsection \<open>The iterate of the line search is a projection\<close>






subsection \<open>The state after a step of the BPIC solver\<close>






subsection \<open>The state after \<open>init\<close> of the BPIC solver\<close>




subsection \<open>The final state is one of the states\<close>



subsection \<open>Feasibility of the BPIC states\<close>





subsection \<open>The matvec budget\<close>

lemma max_matvec_selectors:
  "o_alpha_min (options\<lparr>o_max_matvec := k\<rparr>) = o_alpha_min options"
  "o_alpha_max (options\<lparr>o_max_matvec := k\<rparr>) = o_alpha_max options"
  "o_gamma (options\<lparr>o_max_matvec := k\<rparr>) = o_gamma options"
  "o_dec_tol (options\<lparr>o_max_matvec := k\<rparr>) = o_dec_tol options"
  "o_memory (options\<lparr>o_max_matvec := k\<rparr>) = o_memory options"
  by simp_all

lemma bpic_while_max_matvec:
  "bpic_while cb A b sigma (options\<lparr>o_max_matvec := k\<rparr>) b_norm state
     = bpic_while cb A b sigma options b_norm state"
proof (induction cb A b sigma options b_norm state rule: bpic_while.induct)
  case (1 cb A b sigma options b_norm state)
  have c: "bpic_cond_func sigma b_norm (options\<lparr>o_max_matvec := k\<rparr>) state
             = bpic_cond_func sigma b_norm options state"
    by (simp add: bpic_cond_func_def)
  have f: "bpic_body_func cb A b sigma (options\<lparr>o_max_matvec := k\<rparr>) state
             = bpic_body_func cb A b sigma options state"
    unfolding bpic_body_func_def max_matvec_selectors by (rule refl)
  show ?case
  proof (cases "bpic_cond_func sigma b_norm options state")
    case True
    show ?thesis
    proof (cases "bpic_body_func cb A b sigma options state")
      case (Inl e)
      with True c f show ?thesis
        by (simp add: bpic_while.simps [of cb A b sigma _ b_norm state])
    next
      case (Inr state')
      with True c f "1.IH" [OF True Inr] show ?thesis
        by (simp add: bpic_while.simps [of cb A b sigma _ b_norm state])
    qed
  next
    case False
    with c show ?thesis
      by (simp add: bpic_while.simps [of cb A b sigma _ b_norm state])
  qed
qed

lemma solve_bpic_from_max_matvec:
  "solve_bpic_from cb A b sigma x0 (options\<lparr>o_max_matvec := k\<rparr>)
     = solve_bpic_from cb A b sigma x0 options"
proof -
  have "bpic_init A b sigma x0 (options\<lparr>o_max_matvec := k\<rparr>) = bpic_init A b sigma x0 options"
    unfolding bpic_init_def max_matvec_selectors by (rule refl)
  then show ?thesis
    by (simp add: solve_bpic_from_def bpic_while_max_matvec cong: sum.case_cong)
qed

subsection \<open>The number of candidates of the line search\<close>

lemma ls_while_n_iters_mono:
  "ls_n_iters state \<le> ls_n_iters (ls_while A b x g f_max proj tau gamma g_norm max_iters state)"
proof (induction A b x g f_max proj tau gamma g_norm max_iters state rule: ls_while.induct)
  case (1 A b x g f_max proj tau gamma g_norm max_iters state)
  show ?case
  proof (cases "ls_cond_func max_iters state")
    case True
    from "1.IH" [OF True] True show ?thesis
      by (subst ls_while.simps) (simp add: ls_next_n_iters)
  next
    case False
    then show ?thesis by (subst ls_while.simps) simp
  qed
qed




subsection \<open>The spectral step\<close>





subsection \<open>The counters of the states\<close>


subsection \<open>Concrete runs\<close>

lemma funpow_max_self: "(max (v::real) ^^ k) v = v"
  by (induction k) simp_all

lemma amax_replicate: "0 < n \<Longrightarrow> amax (replicate n v) = Inr v"
  by (cases n) (simp_all add: amax_def funpow_max_self)

lemma unit_op_simps:
  "op_times unit_op v = v" "op_trans unit_op v = v"
  by (simp_all add: unit_op_def)

lemmas solver_eval =
  unit_op_simps vsub_def vneg_def smul_def dot_def obj_val_def norm2_single norm_l1_def
  norm_linf_def dual_norm_def project_to_l1_ball_def arr_l1norm_def initial_step_def clip_def
  default_options_def fdiv_def fadd_def fmaximum0_def finite_value_def Let_def

lemma ls_run_unit:
  "curvy_line_search unit_op [1] [0] [-1] 1 (1/2) project_to_l1_ball 1 (1 / 10000) =
     \<lparr>ls_alpha = 1, ls_scale = 1, ls_x_new = [1], ls_r_new = [0], ls_d_new = [1],
      ls_gtd = -1, ls_d_norm_old = 0, ls_f_val = 0,
      ls_f_lim = 1/2, ls_n_iters = 1, ls_n_safe = 0\<rparr>"
  by (simp add: ls_eval)


lemma bpic_init_unit:
  "bpic_init unit_op [1] 0 [0] (default_options\<lparr>o_max_matvec := k\<rparr>) = Inr bp0"
  by (simp add: bpic_init_def update_xrgf_def bpic_metrics_def solver_eval bp0_def)

lemma bpic_cond_bp0:
  "bpic_cond_func 0 (norm2 [1]) (default_options\<lparr>o_max_matvec := k\<rparr>) bp0"
  by (simp add: bpic_cond_func_def solver_eval bp0_def)

lemma bpic_body_bp0:
  "bpic_body_func cb unit_op [1] 0 (default_options\<lparr>o_max_matvec := k\<rparr>) bp0 = Inr (bp1 cb)"
  by (simp add: bpic_body_func_def bp0_def bp1_def amax_replicate
        ls_run_unit bpic_metrics_def solver_eval)

lemma bpic_cond_bp1:
  "\<not> bpic_cond_func 0 (norm2 [1]) (default_options\<lparr>o_max_matvec := k\<rparr>) (bp1 cb)"
  by (simp add: bpic_cond_func_def solver_eval bp1_def)

lemma solve_bpic_unit:
  "solve_bpic_from cb unit_op [1] 0 [0] (default_options\<lparr>o_max_matvec := k\<rparr>) = Inr (bp1 cb)"
  by (simp add: solve_bpic_from_def bpic_init_unit bpic_while.simps bpic_cond_bp0 bpic_body_bp0
        bpic_cond_bp1)








text \<open>\<open>init\<close> shrinks \<open>tau\<close> and projects \<open>x0\<close>.\<close>

lemma project_half_quarter: "project_to_l1_ball [1/2] (1/4) = [1/4]"
proof -
  have cu: "cumsum [1/2] = [1/2]" by (simp add: cumsum_def)
  have fl: "scan_flags [1/2] (1/4) = [False]" by (simp add: scan_flags_def cu)
  have "threshold [1/2] (1/4) = 1/4"
    by (simp add: threshold_def fl cu argmax_def)
  then show ?thesis
    by (simp add: project_to_l1_ball_def arr_l1norm_def project_sorted_threshold shrink_def)
qed

lemma project_one_quarter: "project_to_l1_ball [1] (1/4) = [1/4]"
proof -
  have cu: "cumsum [1] = [1]" by (simp add: cumsum_def)
  have fl: "scan_flags [1] (1/4) = [False]" by (simp add: scan_flags_def cu)
  have "threshold [1] (1/4) = 3/4"
    by (simp add: threshold_def fl cu argmax_def)
  then show ?thesis
    by (simp add: project_to_l1_ball_def arr_l1norm_def project_sorted_threshold shrink_def)
qed

lemma project_half_half: "project_to_l1_ball [1/2] (1/2) = [1/2]"
  by (simp add: project_to_l1_ball_def arr_l1norm_def)

lemma metrics_first:
  "bpic_metrics [1] [1/2] [- (1/2)] [1/2] (1/8) (3/4) (1/2) = (1/2, 1/2, 0, 1/4, 5/32)"
  by (simp add: bpic_metrics_def vsub_def dot_def norm2_single norm_linf_def dual_norm_def
        power2_eq_square Let_def)

lemma metrics_second:
  "bpic_metrics [1] [1/4] [- (3/4)] [3/4] (9/32) (3/4) (1/4) = (3/4, 3/4, 0, 0, 0)"
  by (simp add: bpic_metrics_def vsub_def dot_def norm2_single norm_linf_def dual_norm_def
        power2_eq_square Let_def)

lemma bpic_init_shrink:
  "bpic_init unit_op [1] (3/4) [1/2] default_options = Inr bs0"
  by (simp add: bpic_init_def update_xrgf_def norm_l1_def project_half_half project_half_quarter
        project_one_quarter metrics_first metrics_second bs0_def
        unit_op_simps vsub_def vneg_def dot_def obj_val_def norm_linf_def initial_step_def
        default_options_def fdiv_def fadd_def fmaximum0_def finite_value_def Let_def)

lemma bpic_cond_bs0: "\<not> bpic_cond_func (3/4) (norm2 [1]) default_options bs0"
  by (simp add: bpic_cond_func_def solver_eval bs0_def)

lemma solve_bpic_shrink:
  "solve_bpic_from cb unit_op [1] (3/4) [1/2] default_options = Inr bs0"
  by (simp add: solve_bpic_from_def bpic_init_shrink bpic_while.simps bpic_cond_bs0)










section \<open>The claims about the solvers\<close>

text \<open>
  C1.  The metrics function of the LASSO solver is to compute the duality gap from the
  residual, the gradient, the objective value, the right-hand side \<open>b\<close> and the radius
  \<open>tau\<close> given to the solver.  It receives neither \<open>b\<close> nor \<open>tau\<close>: in the module as
  written both names are unbound, the call fails with a name error on \<open>b\<close>, and so does
  every LASSO solve, which calls it from \<open>init\<close>.
\<close>

theorem lasso_metrics_unbound_names:
  "lasso_metrics spgl1_globals x g r f = Inl (NameError ''b'')
   \<and> solve_lasso_from spgl1_globals cbuf_push_left A b tau x0 options = Inl (NameError ''b'')"
  by (simp add: lasso_metrics_def spgl1_globals_def solve_lasso_from_def lasso_init_def Let_def)

text \<open>
  C4.  The budget \<open>max_matvec\<close> is to stop the solvers.  It is never read: with a budget
  of \<open>0\<close> the BPIC solver still runs \<open>init\<close> and one full step, moving the iterate from
  \<open>[0]\<close> to \<open>[1]\<close>, and the result of a solve is the same for every budget.
\<close>

theorem max_matvec_not_enforced:
  "solve_bpic_from shift_push unit_op [1] 0 [0] (default_options\<lparr>o_max_matvec := 0\<rparr>)
     = Inr (bp1 shift_push)
   \<and> st_iterations (bp1 shift_push) = 2
   \<and> st_x (bp1 shift_push) = [1]
   \<and> solve_bpic_from cbuf_push_left A b sigma x0 (options\<lparr>o_max_matvec := k\<rparr>)
       = solve_bpic_from cbuf_push_left A b sigma x0 options"
proof (intro conjI)
  show "solve_bpic_from shift_push unit_op [1] 0 [0] (default_options\<lparr>o_max_matvec := 0\<rparr>)
          = Inr (bp1 shift_push)"
    by (rule solve_bpic_unit)
  show "st_iterations (bp1 shift_push) = 2" and "st_x (bp1 shift_push) = [1]"
    by (simp_all add: bp1_def)
  show "solve_bpic_from cbuf_push_left A b sigma x0 (options\<lparr>o_max_matvec := k\<rparr>)
          = solve_bpic_from cbuf_push_left A b sigma x0 options"
    by (rule solve_bpic_from_max_matvec)
qed













end
